theory Spec2Isabelle
  imports Complex_Main "HOL-Library.Sublist"
begin

section \<open>Strings and the regular expressions of the tokenizer\<close>

text \<open>
  A Python \<^verbatim>\<open>str\<close> is modelled as a \<^typ>\<open>string\<close> in which every
  \<^typ>\<open>char\<close> stands for one code point below 256, so that \<open>length\<close> and slicing
  count what Python counts. Code points from 256 on are outside the model.
\<close>

definition code_point :: "char \<Rightarrow> nat" where
  "code_point c = of_char c"

text \<open>
  The fragment of \<^verbatim>\<open>re\<close> that \<^verbatim>\<open>tokenizer.py\<close> uses: a literal character, a
  character range \<^verbatim>\<open>[a-b]\<close> (by code point), sequence and alternation.
  \<open>re_run r s\<close> lists, in backtracking order, the rests of \<open>s\<close> after each way
  \<open>r\<close> can match at the start of \<open>s\<close>; \<^verbatim>\<open>re.match(r, s)\<close> is not
  \<^verbatim>\<open>None\<close> exactly when there is one. \<^verbatim>\<open>re.match\<close> only matches at the start of the
  string, which is also all the leading \<^verbatim>\<open>^\<close> of the source's patterns asks for.
\<close>

datatype regex =
    Lit char
  | Range char char
  | Seq regex regex
  | Alt regex regex

fun re_run :: "regex \<Rightarrow> string \<Rightarrow> string list" where
  "re_run (Lit c) s = (case s of [] \<Rightarrow> [] | x # xs \<Rightarrow> if x = c then [xs] else [])"
| "re_run (Range lo hi) s =
     (case s of [] \<Rightarrow> [] | x # xs \<Rightarrow> if code_point lo \<le> code_point x \<and> code_point x \<le> code_point hi then [xs] else [])"
| "re_run (Seq a b) s = concat (map (re_run b) (re_run a s))"
| "re_run (Alt a b) s = re_run a s @ re_run b s"

definition re_match :: "regex \<Rightarrow> string \<Rightarrow> bool" where
  "re_match r s = (re_run r s \<noteq> [])"

text \<open>
  \<^verbatim>\<open>\s\<close> on a \<^verbatim>\<open>str\<close> pattern is Unicode whitespace; below 256 these are the code
  points 9 to 13, 28 to 32, 133 and 160.
\<close>

definition is_space :: "char \<Rightarrow> bool" where
  "is_space c = (code_point c \<in> {9, 10, 11, 12, 13, 28, 29, 30, 31, 32, 133, 160})"

text \<open>The class \<^verbatim>\<open>[\s-]\<close>: whitespace or the dash.\<close>

definition space_or_dash :: "char \<Rightarrow> bool" where
  "space_or_dash c = (is_space c \<or> c = CHR ''-'')"

text \<open>
  \<^verbatim>\<open>re.sub(cls, "", s)\<close> for a pattern that is a single character class: every
  character of the class is deleted, the others stay in order.
\<close>

definition re_sub_delete :: "(char \<Rightarrow> bool) \<Rightarrow> string \<Rightarrow> string" where
  "re_sub_delete cls s = filter (\<lambda>c. \<not> cls c) s"

subsection \<open>\<^verbatim>\<open>PaymentTokenizer._identify_card_type\<close>\<close>

text \<open>The four patterns, as written in the source.\<close>

definition pat_visa :: regex where
  "pat_visa = Lit CHR ''4''"

definition pat_mastercard :: regex where
  "pat_mastercard = Seq (Lit CHR ''5'') (Range CHR ''1'' CHR ''5'')"

definition pat_amex :: regex where
  "pat_amex = Seq (Lit CHR ''3'') (Alt (Lit CHR ''4'') (Lit CHR ''7''))"

definition pat_discover :: regex where
  "pat_discover =
     Seq (Lit CHR ''6'')
       (Alt (Seq (Lit CHR ''0'') (Seq (Lit CHR ''1'') (Lit CHR ''1''))) (Lit CHR ''5''))"

definition clean_number :: "string \<Rightarrow> string" where
  "clean_number card_number = re_sub_delete space_or_dash card_number"

definition identify_card_type :: "string \<Rightarrow> string" where
  "identify_card_type card_number =
     (let clean = clean_number card_number in
      if re_match pat_visa clean then ''Visa''
      else if re_match pat_mastercard clean then ''Mastercard''
      else if re_match pat_amex clean then ''American Express''
      else if re_match pat_discover clean then ''Discover''
      else ''Unknown'')"


subsection \<open>Slicing\<close>

text \<open>
  \<^verbatim>\<open>s[-n:]\<close> for a positive \<open>n\<close>: the last \<open>n\<close> characters, or all of \<open>s\<close> when
  it is shorter (the truncating subtraction on \<^typ>\<open>nat\<close> is what Python does here).
\<close>

definition slice_last :: "nat \<Rightarrow> string \<Rightarrow> string" where
  "slice_last n s = drop (length s - n) s"

section \<open>Numbers\<close>

text \<open>
  A Python \<^verbatim>\<open>float\<close> is an IEEE double: a finite value, an infinity or NaN. The model
  keeps the exact rational value of a finite float (an \<^verbatim>\<open>int\<close> passed as an amount
  is a finite value too), so that the comparisons below are exactly Python's
  \<^verbatim>\<open>==\<close>, \<^verbatim>\<open>>=\<close> and \<^verbatim>\<open><\<close>. No float arithmetic is performed by the code.
\<close>

datatype pyfloat = Finite rat | PosInf | NegInf | NaN

fun float_eq :: "pyfloat \<Rightarrow> pyfloat \<Rightarrow> bool" where
  "float_eq (Finite a) (Finite b) = (a = b)"
| "float_eq PosInf PosInf = True"
| "float_eq NegInf NegInf = True"
| "float_eq _ _ = False"

fun float_ge :: "pyfloat \<Rightarrow> pyfloat \<Rightarrow> bool" where
  "float_ge NaN _ = False"
| "float_ge _ NaN = False"
| "float_ge PosInf _ = True"
| "float_ge _ NegInf = True"
| "float_ge (Finite a) (Finite b) = (b \<le> a)"
| "float_ge _ _ = False"

text \<open>
  The float literals of \<^verbatim>\<open>payment_processor.py\<close> and of the round trip, each the
  double nearest to the decimal that is written: \<^verbatim>\<open>0.01\<close>, \<^verbatim>\<open>0.02\<close>,
  \<^verbatim>\<open>0.03\<close>, \<^verbatim>\<open>0.90\<close>, \<^verbatim>\<open>0.95\<close> and \<^verbatim>\<open>99.99\<close>.
\<close>

definition lit_0_01 :: rat where
  "lit_0_01 = 5764607523034235 / 2 ^ 59"

definition lit_0_02 :: rat where
  "lit_0_02 = 5764607523034235 / 2 ^ 58"

definition lit_0_03 :: rat where
  "lit_0_03 = 1080863910568919 / 2 ^ 55"

definition lit_0_90 :: rat where
  "lit_0_90 = 8106479329266893 / 2 ^ 53"

definition lit_0_95 :: rat where
  "lit_0_95 = 4278419646001971 / 2 ^ 52"

definition lit_99_99 :: rat where
  "lit_99_99 = 7036170730324623 / 2 ^ 46"

section \<open>The environment: clock, randomness, library functions\<close>

text \<open>
  A naive UTC \<^verbatim>\<open>datetime\<close> is the number of microseconds since
  0001-01-01T00:00:00. A stored ISO-8601 text (\<^verbatim>\<open>isoformat()\<close>) is modelled by the
  datetime it denotes, which is what \<^verbatim>\<open>datetime.fromisoformat\<close> reads back.
\<close>

type_synonym datetime = int

definition datetime_max :: datetime where
  "datetime_max = 315537897599999999"

definition timedelta_hours :: "int \<Rightarrow> int" where
  "timedelta_hours h = h * 3600000000"

text \<open>
  Every call of \<^verbatim>\<open>datetime.utcnow()\<close>, \<^verbatim>\<open>secrets.token_hex(n)\<close> and
  \<^verbatim>\<open>random.random()\<close> consumes the next answer of its source; the counters say
  how many answers have been consumed. \<^verbatim>\<open>random.random()\<close> answers with a finite
  float. The three library functions are fixed but uninterpreted:
  \<^verbatim>\<open>hashlib.sha256(s.encode()).hexdigest()\<close>, \<^verbatim>\<open>datetime.isoformat()\<close> and
  \<^verbatim>\<open>datetime.strftime("%Y%m%d%H%M%S")\<close>.
\<close>

record env =
  utcnow_src :: "nat \<Rightarrow> datetime"
  utcnow_calls :: nat
  token_hex_src :: "nat \<Rightarrow> nat \<Rightarrow> string"
  token_hex_calls :: nat
  random_src :: "nat \<Rightarrow> rat"
  random_calls :: nat
  sha256_hexdigest :: "string \<Rightarrow> string"
  isoformat :: "datetime \<Rightarrow> string"
  strftime :: "datetime \<Rightarrow> string"

definition utcnow :: "env \<Rightarrow> datetime \<times> env" where
  "utcnow e = (utcnow_src e (utcnow_calls e), e\<lparr>utcnow_calls := Suc (utcnow_calls e)\<rparr>)"

definition token_hex :: "nat \<Rightarrow> env \<Rightarrow> string \<times> env" where
  "token_hex nbytes e =
     (token_hex_src e (token_hex_calls e) nbytes, e\<lparr>token_hex_calls := Suc (token_hex_calls e)\<rparr>)"

definition random_random :: "env \<Rightarrow> rat \<times> env" where
  "random_random e = (random_src e (random_calls e), e\<lparr>random_calls := Suc (random_calls e)\<rparr>)"

datatype py_error = OverflowError | ValueError string

section \<open>Dictionaries\<close>

text \<open>
  A Python \<^verbatim>\<open>dict\<close> keeps its keys in insertion order: a list of key-value pairs
  with distinct keys. Assigning to a key that is present replaces the value where it
  stands; a new key goes to the end.
\<close>

type_synonym ('k, 'v) dict = "('k \<times> 'v) list"

fun dict_get :: "('k, 'v) dict \<Rightarrow> 'k \<Rightarrow> 'v option" where
  "dict_get [] k = None"
| "dict_get ((k', v') # d) k = (if k' = k then Some v' else dict_get d k)"

fun dict_set :: "('k, 'v) dict \<Rightarrow> 'k \<Rightarrow> 'v \<Rightarrow> ('k, 'v) dict" where
  "dict_set [] k v = [(k, v)]"
| "dict_set ((k', v') # d) k v =
     (if k' = k then (k', v) # d else (k', v') # dict_set d k v)"

definition dict_keys :: "('k, 'v) dict \<Rightarrow> 'k list" where
  "dict_keys d = map fst d"

definition dict_values :: "('k, 'v) dict \<Rightarrow> 'v list" where
  "dict_values d = map snd d"

section \<open>The tokenizer (\<^verbatim>\<open>tokenizer.py\<close>)\<close>

text \<open>
  The dict stored for a token (\<^verbatim>\<open>token_data\<close>), and the dict that
  \<^verbatim>\<open>tokenize_card\<close> returns. Both are built with fixed keys, one field each.
\<close>

record token_record =
  tk_token :: string
  tk_card_number_hash :: string
  tk_last_four_digits :: string
  tk_card_holder :: string
  tk_expiry_month :: int
  tk_expiry_year :: int
  tk_card_type :: string
  tk_expires_at :: datetime
  tk_created_at :: datetime
  tk_is_valid :: bool

record token_info =
  ti_token :: string
  ti_last_four_digits :: string
  ti_card_type :: string
  ti_expires_at :: datetime

type_synonym tokens = "(string, token_record) dict"

definition generate_token :: "string \<Rightarrow> env \<Rightarrow> string \<times> env" where
  "generate_token card_number e =
     (let (random_data, e1) = token_hex 16 e;
          (now, e2) = utcnow e1;
          timestamp = isoformat e2 now;
          data = card_number @ '':'' @ random_data @ '':'' @ timestamp;
          token_hash = sha256_hexdigest e2 data
      in (''tok_'' @ take 32 token_hash, e2))"

text \<open>
  \<^verbatim>\<open>datetime.utcnow() + timedelta(hours=24)\<close> raises \<^verbatim>\<open>OverflowError\<close> when the
  sum is past \<^verbatim>\<open>datetime.max\<close>; nothing has been stored at that point. The result
  comes with the token store and the environment as the call leaves them.
\<close>

definition tokenize_card ::
  "tokens \<Rightarrow> string \<Rightarrow> string \<Rightarrow> int \<Rightarrow> int \<Rightarrow> string \<Rightarrow> env
     \<Rightarrow> (py_error + token_info) \<times> tokens \<times> env" where
  "tokenize_card tokens card_number card_holder expiry_month expiry_year cvv e =
     (let (token, e1) = generate_token card_number e;
          card_type = identify_card_type card_number;
          last_four = slice_last 4 card_number;
          (now, e2) = utcnow e1
      in if datetime_max < now + timedelta_hours 24 then (Inl OverflowError, tokens, e2)
         else
           let expires_at = now + timedelta_hours 24;
               (created, e3) = utcnow e2;
               token_data = \<lparr>
                 tk_token = token,
                 tk_card_number_hash = sha256_hexdigest e2 card_number,
                 tk_last_four_digits = last_four,
                 tk_card_holder = card_holder,
                 tk_expiry_month = expiry_month,
                 tk_expiry_year = expiry_year,
                 tk_card_type = card_type,
                 tk_expires_at = expires_at,
                 tk_created_at = created,
                 tk_is_valid = True \<rparr>
           in (Inr \<lparr> ti_token = token,
                      ti_last_four_digits = last_four,
                      ti_card_type = card_type,
                      ti_expires_at = expires_at \<rparr>,
               dict_set tokens token token_data,
               e3))"

definition validate_token ::
  "tokens \<Rightarrow> string \<Rightarrow> env \<Rightarrow> token_record option \<times> tokens \<times> env" where
  "validate_token tokens token e =
     (case dict_get tokens token of
        None \<Rightarrow> (None, tokens, e)
      | Some token_data \<Rightarrow>
          if \<not> tk_is_valid token_data then (None, tokens, e)
          else
            let expires_at = tk_expires_at token_data;
                (now, e1) = utcnow e
            in if expires_at < now
               then (None, dict_set tokens token (token_data\<lparr>tk_is_valid := False\<rparr>), e1)
               else (Some token_data, tokens, e1))"

definition get_token_info :: "tokens \<Rightarrow> string \<Rightarrow> token_record option" where
  "get_token_info tokens token = dict_get tokens token"

subsection \<open>The boundary: \<^verbatim>\<open>PaymentCard.validate_card_number\<close> (\<^verbatim>\<open>models.py\<close>)\<close>

text \<open>
  \<^verbatim>\<open>str.isdigit()\<close> holds for a non-empty string of digit characters; below 256
  these are \<^verbatim>\<open>0\<close> to \<^verbatim>\<open>9\<close> and the superscripts at 178, 179 and 185.
\<close>

definition is_digit_char :: "char \<Rightarrow> bool" where
  "is_digit_char c = ((48 \<le> code_point c \<and> code_point c \<le> 57) \<or> code_point c \<in> {178, 179, 185})"

definition isdigit :: "string \<Rightarrow> bool" where
  "isdigit s = (s \<noteq> [] \<and> list_all is_digit_char s)"

definition validate_card_number :: "string \<Rightarrow> py_error + string" where
  "validate_card_number v =
     (let clean_number = re_sub_delete space_or_dash v in
      if \<not> isdigit clean_number then Inl (ValueError ''Card number must contain only digits'')
      else if length clean_number \<notin> {15, 16} then Inl (ValueError ''Card number must be 15 or 16 digits'')
      else Inr clean_number)"

section \<open>The payment processor (\<^verbatim>\<open>payment_processor.py\<close>)\<close>

datatype PaymentStatus = SUCCESS | FAILED | PENDING

record card_info =
  ci_last_four :: string
  ci_card_type :: string

text \<open>
  The transaction dict. The keys \<^verbatim>\<open>refunded\<close> and \<^verbatim>\<open>refund_id\<close> are absent
  (\<open>None\<close>) until a refund sets them.
\<close>

record transaction =
  tx_transaction_id :: string
  tx_token :: string
  tx_amount :: pyfloat
  tx_currency :: string
  tx_customer_id :: string
  tx_description :: "string option"
  tx_status :: PaymentStatus
  tx_message :: string
  tx_processed_at :: datetime
  tx_card_info :: card_info
  tx_refunded :: "bool option"
  tx_refund_id :: "string option"

text \<open>
  The refund dict. It has no \<^verbatim>\<open>refunded\<close> key when it is created; refunding a
  refund sets that key on it and overwrites its \<^verbatim>\<open>refund_id\<close>.
\<close>

record refund =
  rf_refund_id :: string
  rf_original_transaction_id :: string
  rf_amount :: pyfloat
  rf_currency :: string
  rf_customer_id :: string
  rf_status :: PaymentStatus
  rf_message :: string
  rf_processed_at :: datetime
  rf_refunded :: "bool option"

text \<open>\<^verbatim>\<open>self.transactions\<close> holds dicts of both shapes.\<close>

datatype entry = Txn transaction | Rfd refund

type_synonym transactions = "(string, entry) dict"

text \<open>Reading the keys that both shapes have: \<^verbatim>\<open>tx["status"]\<close> and so on.\<close>

fun entry_status :: "entry \<Rightarrow> PaymentStatus" where
  "entry_status (Txn t) = tx_status t"
| "entry_status (Rfd r) = rf_status r"

fun entry_amount :: "entry \<Rightarrow> pyfloat" where
  "entry_amount (Txn t) = tx_amount t"
| "entry_amount (Rfd r) = rf_amount r"

fun entry_currency :: "entry \<Rightarrow> string" where
  "entry_currency (Txn t) = tx_currency t"
| "entry_currency (Rfd r) = rf_currency r"

fun entry_customer_id :: "entry \<Rightarrow> string" where
  "entry_customer_id (Txn t) = tx_customer_id t"
| "entry_customer_id (Rfd r) = rf_customer_id r"

fun entry_refunded :: "entry \<Rightarrow> bool option" where
  "entry_refunded (Txn t) = tx_refunded t"
| "entry_refunded (Rfd r) = rf_refunded r"

fun entry_refund_id :: "entry \<Rightarrow> string option" where
  "entry_refund_id (Txn t) = tx_refund_id t"
| "entry_refund_id (Rfd r) = Some (rf_refund_id r)"

text \<open>
  \<^verbatim>\<open>transaction["refunded"] = True; transaction["refund_id"] = refund_id\<close>
\<close>

fun mark_refunded :: "string \<Rightarrow> entry \<Rightarrow> entry" where
  "mark_refunded refund_id (Txn t) = Txn (t\<lparr>tx_refunded := Some True, tx_refund_id := Some refund_id\<rparr>)"
| "mark_refunded refund_id (Rfd r) = Rfd (r\<lparr>rf_refunded := Some True, rf_refund_id := refund_id\<rparr>)"

definition generate_transaction_id :: "env \<Rightarrow> string \<times> env" where
  "generate_transaction_id e =
     (let (now, e1) = utcnow e;
          timestamp = strftime e1 now;
          (random_part, e2) = token_hex 8 e1
      in (''txn_'' @ timestamp @ ''_'' @ random_part, e2))"

definition simulate_processing :: "pyfloat \<Rightarrow> env \<Rightarrow> (PaymentStatus \<times> string) \<times> env" where
  "simulate_processing amount e =
     (if float_eq amount (Finite lit_0_01) then ((FAILED, ''Insufficient funds''), e)
      else if float_eq amount (Finite lit_0_02) then ((FAILED, ''Card declined''), e)
      else if float_eq amount (Finite lit_0_03) then ((PENDING, ''Payment pending verification''), e)
      else if float_ge amount (Finite 10000)
        then ((PENDING, ''Large transaction - manual review required''), e)
      else
        let (outcome, e1) = random_random e
        in if outcome < lit_0_90 then ((SUCCESS, ''Payment processed successfully''), e1)
           else if outcome < lit_0_95 then ((FAILED, ''Card declined by issuer''), e1)
           else ((PENDING, ''Payment under review''), e1))"

text \<open>
  \<^verbatim>\<open>token_data\<close> is \<^verbatim>\<open>None\<close> or the dict of a token, which is never empty and has
  both keys that are read.
\<close>

definition process_payment ::
  "transactions \<Rightarrow> string \<Rightarrow> pyfloat \<Rightarrow> string \<Rightarrow> string \<Rightarrow> string option \<Rightarrow> token_record option
     \<Rightarrow> env \<Rightarrow> transaction \<times> transactions \<times> env" where
  "process_payment transactions token amount currency customer_id description token_data e =
     (let (transaction_id, e1) = generate_transaction_id e;
          ((status, message), e2) = simulate_processing amount e1;
          (now, e3) = utcnow e2;
          transaction = \<lparr>
            tx_transaction_id = transaction_id,
            tx_token = token,
            tx_amount = amount,
            tx_currency = currency,
            tx_customer_id = customer_id,
            tx_description = description,
            tx_status = status,
            tx_message = message,
            tx_processed_at = now,
            tx_card_info = \<lparr>
              ci_last_four =
                (case token_data of Some td \<Rightarrow> tk_last_four_digits td | None \<Rightarrow> ''XXXX''),
              ci_card_type =
                (case token_data of Some td \<Rightarrow> tk_card_type td | None \<Rightarrow> ''Unknown'') \<rparr>,
            tx_refunded = None,
            tx_refund_id = None \<rparr>
      in (transaction, dict_set transactions transaction_id (Txn transaction), e3))"

definition get_transaction :: "transactions \<Rightarrow> string \<Rightarrow> entry option" where
  "get_transaction transactions transaction_id = dict_get transactions transaction_id"

definition get_customer_transactions :: "transactions \<Rightarrow> string \<Rightarrow> entry list" where
  "get_customer_transactions transactions customer_id =
     filter (\<lambda>tx. entry_customer_id tx = customer_id) (dict_values transactions)"

text \<open>
  What \<^verbatim>\<open>refund_transaction\<close> returns when it returns a dict: the refund, or
  \<^verbatim>\<open>{"success": False, "message": ...}\<close>.
\<close>

datatype refund_result =
    Refund refund
  | Rejected (success: bool) (message: string)

text \<open>
  The store holds references. When the generated refund id is the id of the transaction
  being refunded, \<^verbatim>\<open>self.transactions[refund_id] = refund\<close> takes the transaction
  out of the store, and the two assignments that follow change a dict the store no
  longer holds. Otherwise they change the stored transaction where it stands.
\<close>

definition refund_transaction ::
  "transactions \<Rightarrow> string \<Rightarrow> env \<Rightarrow> refund_result option \<times> transactions \<times> env" where
  "refund_transaction transactions transaction_id e =
     (case dict_get transactions transaction_id of
        None \<Rightarrow> (None, transactions, e)
      | Some transaction \<Rightarrow>
          if entry_status transaction \<noteq> SUCCESS
          then (Some (Rejected False ''Only successful transactions can be refunded''),
                transactions, e)
          else
            let (refund_id, e1) = generate_transaction_id e;
                (now, e2) = utcnow e1;
                refund = \<lparr>
                  rf_refund_id = refund_id,
                  rf_original_transaction_id = transaction_id,
                  rf_amount = entry_amount transaction,
                  rf_currency = entry_currency transaction,
                  rf_customer_id = entry_customer_id transaction,
                  rf_status = SUCCESS,
                  rf_message = ''Refund processed successfully'',
                  rf_processed_at = now,
                  rf_refunded = None \<rparr>;
                stored = dict_set transactions refund_id (Rfd refund)
            in (Some (Refund refund),
                (if refund_id = transaction_id then stored
                 else dict_set stored transaction_id (mark_refunded refund_id transaction)),
                e2))"

subsection \<open>The processor as an object\<close>

text \<open>
  A \<^verbatim>\<open>PaymentProcessor\<close> owns \<^verbatim>\<open>self.transactions\<close>; a method call takes the store
  and the environment and leaves both behind with its answer.
\<close>

datatype call =
    ProcessPayment string pyfloat string string "string option" "token_record option"
  | GetTransaction string
  | GetCustomerTransactions string
  | RefundTransaction string

datatype response =
    Processed transaction
  | Found "entry option"
  | Listing "entry list"
  | Refunded "refund_result option"

fun exec :: "call \<Rightarrow> transactions \<times> env \<Rightarrow> response \<times> transactions \<times> env" where
  "exec (ProcessPayment token amount currency customer_id description token_data) (txs, e) =
     (case process_payment txs token amount currency customer_id description token_data e of
        (t, txs', e') \<Rightarrow> (Processed t, txs', e'))"
| "exec (GetTransaction transaction_id) (txs, e) = (Found (get_transaction txs transaction_id), txs, e)"
| "exec (GetCustomerTransactions customer_id) (txs, e) =
     (Listing (get_customer_transactions txs customer_id), txs, e)"
| "exec (RefundTransaction transaction_id) (txs, e) =
     (case refund_transaction txs transaction_id e of (r, txs', e') \<Rightarrow> (Refunded r, txs', e'))"

fun run :: "call list \<Rightarrow> transactions \<times> env \<Rightarrow> transactions \<times> env" where
  "run [] st = st"
| "run (c # cs) st = run cs (snd (exec c st))"

subsection \<open>Notions used to state the properties\<close>

text \<open>
  The id that the next call of \<^verbatim>\<open>_generate_transaction_id\<close> returns is fresh when no
  record is stored under it. The code does not check this; the design relies on 8 random
  bytes and the clock.
\<close>

definition next_id :: "env \<Rightarrow> string" where
  "next_id e = fst (generate_transaction_id e)"

definition next_id_fresh :: "transactions \<Rightarrow> env \<Rightarrow> bool" where
  "next_id_fresh txs e = (next_id e \<notin> set (dict_keys txs))"

text \<open>Whether a call generates an id in the given store.\<close>

fun generates_id :: "call \<Rightarrow> transactions \<Rightarrow> bool" where
  "generates_id (ProcessPayment _ _ _ _ _ _) txs = True"
| "generates_id (RefundTransaction transaction_id) txs =
     (case dict_get txs transaction_id of None \<Rightarrow> False | Some t \<Rightarrow> entry_status t = SUCCESS)"
| "generates_id _ txs = False"

text \<open>A run in which every id is fresh at the moment it is generated.\<close>

fun fresh_run :: "call list \<Rightarrow> transactions \<times> env \<Rightarrow> bool" where
  "fresh_run [] st = True"
| "fresh_run (c # cs) st =
     ((generates_id c (fst st) \<longrightarrow> next_id_fresh (fst st) (snd st)) \<and> fresh_run cs (snd (exec c st)))"

text \<open>
  The words of the specification for \<^verbatim>\<open>getCustomerTransactions\<close>: the stored records
  whose customer id is the argument, in the insertion order of the store.
\<close>

fun stored_matching :: "transactions \<Rightarrow> string \<Rightarrow> entry list" where
  "stored_matching [] customer_id = []"
| "stored_matching ((k, v) # d) customer_id =
     (if entry_customer_id v = customer_id then v # stored_matching d customer_id
      else stored_matching d customer_id)"

text \<open>
  Two transaction dicts that agree on every key except \<^verbatim>\<open>refunded\<close> and
  \<^verbatim>\<open>refund_id\<close>.
\<close>

definition same_but_refund_fields :: "transaction \<Rightarrow> transaction \<Rightarrow> bool" where
  "same_but_refund_fields t t' =
     (tx_transaction_id t' = tx_transaction_id t \<and> tx_token t' = tx_token t
      \<and> tx_amount t' = tx_amount t \<and> tx_currency t' = tx_currency t
      \<and> tx_customer_id t' = tx_customer_id t \<and> tx_description t' = tx_description t
      \<and> tx_status t' = tx_status t \<and> tx_message t' = tx_message t
      \<and> tx_processed_at t' = tx_processed_at t \<and> tx_card_info t' = tx_card_info t)"

subsection \<open>A concrete environment for examples\<close>

text \<open>
  A clock that starts at 2024-01-01T00:00:00 and advances one second per reading, a
  random source that cycles through \<open>0.5\<close>, \<open>0.92\<close> and \<open>0.96\<close>, and stand-ins of the
  right shape for the library functions.
\<close>

definition example_env :: env where
  "example_env = \<lparr>
     utcnow_src = (\<lambda>n. 63839664000000000 + 1000000 * int n),
     utcnow_calls = 0,
     token_hex_src = (\<lambda>n nbytes. replicate (2 * nbytes - 1) CHR ''0'' @ [''0123456789abcdef'' ! (n mod 16)]),
     token_hex_calls = 0,
     random_src = (\<lambda>n. [1 / 2, 23 / 25, 24 / 25] ! (n mod 3)),
     random_calls = 0,
     sha256_hexdigest = (\<lambda>s. replicate 64 CHR ''e''),
     isoformat = (\<lambda>t. ''2024-01-01T00:00:00''),
     strftime = (\<lambda>t. ''20240101000000'') \<rparr>"

text \<open>
  A store for examples: a successful payment of customer \<open>cust_1\<close>, a failed one and a
  pending one of customer \<open>cust_2\<close>.
\<close>

definition example_transaction :: transaction where
  "example_transaction = \<lparr>
     tx_transaction_id = ''txn_A'', tx_token = ''tok_1'', tx_amount = Finite lit_99_99,
     tx_currency = ''USD'', tx_customer_id = ''cust_1'', tx_description = None,
     tx_status = SUCCESS, tx_message = ''Payment processed successfully'',
     tx_processed_at = 63839664000000000,
     tx_card_info = \<lparr> ci_last_four = ''1111'', ci_card_type = ''Visa'' \<rparr>,
     tx_refunded = None, tx_refund_id = None \<rparr>"

definition example_store :: transactions where
  "example_store =
     [(''txn_A'', Txn example_transaction),
      (''txn_B'', Txn (example_transaction\<lparr>tx_transaction_id := ''txn_B'', tx_customer_id := ''cust_2'',
          tx_amount := Finite lit_0_01, tx_status := FAILED, tx_message := ''Insufficient funds''\<rparr>)),
      (''txn_C'', Txn (example_transaction\<lparr>tx_transaction_id := ''txn_C'', tx_customer_id := ''cust_2'',
          tx_amount := Finite 15000, tx_status := PENDING,
          tx_message := ''Large transaction - manual review required''\<rparr>))]"

text \<open>
  A token store for examples: a token that expires at 2024-01-02T00:00:00, one that
  expired a microsecond before 2024-01-01T00:00:00 with its flag still set, and one that
  is already marked invalid.
\<close>

definition example_token :: token_record where
  "example_token = \<lparr>
     tk_token = ''tok_1'', tk_card_number_hash = replicate 64 CHR ''e'',
     tk_last_four_digits = ''1111'', tk_card_holder = ''A. Holder'',
     tk_expiry_month = 12, tk_expiry_year = 2030, tk_card_type = ''Visa'',
     tk_expires_at = 63839750400000000, tk_created_at = 63839664000000000,
     tk_is_valid = True \<rparr>"

definition example_tokens :: tokens where
  "example_tokens =
     [(''tok_1'', example_token),
      (''tok_old'', example_token\<lparr>tk_token := ''tok_old'', tk_expires_at := 63839663999999999\<rparr>),
      (''tok_bad'', example_token\<lparr>tk_token := ''tok_bad'', tk_is_valid := False\<rparr>)]"

section \<open>Card types\<close>









section \<open>Dictionaries and the environment: basic facts\<close>

lemma dict_get_set: "dict_get (dict_set d k v) k' = (if k' = k then Some v else dict_get d k')"
  by (induction d) auto

lemma dict_get_None_iff: "dict_get d k = None \<longleftrightarrow> k \<notin> set (dict_keys d)"
  by (induction d) (force simp: dict_keys_def)+

lemma dict_get_Some_in_values: "dict_get d k = Some v \<Longrightarrow> v \<in> set (dict_values d)"
  by (induction d) (auto simp: dict_values_def split: if_splits)

lemma dict_set_fresh: "k \<notin> set (dict_keys d) \<Longrightarrow> dict_set d k v = d @ [(k, v)]"
  by (induction d) (auto simp: dict_keys_def)

lemma generate_transaction_id_env:
  "snd (generate_transaction_id e) = e\<lparr>utcnow_calls := Suc (utcnow_calls e), token_hex_calls := Suc (token_hex_calls e)\<rparr>"
  by (simp add: generate_transaction_id_def utcnow_def token_hex_def Let_def)

lemma simulate_processing_cases:
  "simulate_processing amount e =
     (if float_eq amount (Finite lit_0_01) then ((FAILED, ''Insufficient funds''), e)
      else if float_eq amount (Finite lit_0_02) then ((FAILED, ''Card declined''), e)
      else if float_eq amount (Finite lit_0_03) then ((PENDING, ''Payment pending verification''), e)
      else if float_ge amount (Finite 10000)
        then ((PENDING, ''Large transaction - manual review required''), e)
      else if random_src e (random_calls e) < lit_0_90
        then ((SUCCESS, ''Payment processed successfully''), e\<lparr>random_calls := Suc (random_calls e)\<rparr>)
      else if random_src e (random_calls e) < lit_0_95
        then ((FAILED, ''Card declined by issuer''), e\<lparr>random_calls := Suc (random_calls e)\<rparr>)
      else ((PENDING, ''Payment under review''), e\<lparr>random_calls := Suc (random_calls e)\<rparr>))"
  by (simp add: simulate_processing_def random_random_def Let_def)

lemma process_payment_unfold:
  "process_payment txs token amount currency customer_id description token_data e =
     (let e1 = snd (generate_transaction_id e);
          r = simulate_processing amount e1;
          e2 = snd r;
          t = \<lparr> tx_transaction_id = next_id e, tx_token = token, tx_amount = amount,
                tx_currency = currency, tx_customer_id = customer_id, tx_description = description,
                tx_status = fst (fst r), tx_message = snd (fst r),
                tx_processed_at = utcnow_src e2 (utcnow_calls e2),
                tx_card_info = \<lparr>
                  ci_last_four = (case token_data of Some td \<Rightarrow> tk_last_four_digits td | None \<Rightarrow> ''XXXX''),
                  ci_card_type = (case token_data of Some td \<Rightarrow> tk_card_type td | None \<Rightarrow> ''Unknown'') \<rparr>,
                tx_refunded = None, tx_refund_id = None \<rparr>
      in (t, dict_set txs (next_id e) (Txn t), e2\<lparr>utcnow_calls := Suc (utcnow_calls e2)\<rparr>))"
  by (simp add: process_payment_def next_id_def utcnow_def Let_def split: prod.splits)

lemma float_ge_10000_not_small:
  "float_ge amount (Finite 10000) \<Longrightarrow>
     \<not> float_eq amount (Finite lit_0_01) \<and> \<not> float_eq amount (Finite lit_0_02) \<and> \<not> float_eq amount (Finite lit_0_03)"
  by (cases amount) (auto simp: lit_0_01_def lit_0_02_def lit_0_03_def)

lemma lits_distinct:
  "lit_0_01 \<noteq> lit_0_02" "lit_0_01 \<noteq> lit_0_03" "lit_0_02 \<noteq> lit_0_03" "lit_0_90 < lit_0_95"
  by (simp_all add: lit_0_01_def lit_0_02_def lit_0_03_def lit_0_90_def lit_0_95_def)

section \<open>Payment outcomes\<close>

text \<open>
  C1. The status and message of a payment are decided by the amount alone, the
  overrides first and with exact equality: \<open>0.01\<close> fails with "Insufficient funds",
  \<open>0.02\<close> fails with "Card declined", \<open>0.03\<close> is pending with "Payment pending
  verification", an amount of at least \<open>10000\<close> is pending with "Large transaction -
  manual review required", and none of these draws a random value. Every other amount
  draws exactly one value \<open>u\<close>: below \<open>0.90\<close> the payment succeeds, from \<open>0.90\<close> and
  below \<open>0.95\<close> it fails with "Card declined by issuer", from \<open>0.95\<close> it is pending with
  "Payment under review". Token, customer, currency, description and token metadata
  play no part. The numbers are the float literals of the source.
\<close>

theorem process_payment_outcome:
  "let r = process_payment txs token amount currency customer_id description token_data e;
       t = fst r; txs' = fst (snd r); e' = snd (snd r);
       u = random_src e (random_calls e)
   in (float_eq amount (Finite lit_0_01) \<longrightarrow>
         tx_status t = FAILED \<and> tx_message t = ''Insufficient funds''
         \<and> random_calls e' = random_calls e)
    \<and> (float_eq amount (Finite lit_0_02) \<longrightarrow>
         tx_status t = FAILED \<and> tx_message t = ''Card declined''
         \<and> random_calls e' = random_calls e)
    \<and> (float_eq amount (Finite lit_0_03) \<longrightarrow>
         tx_status t = PENDING \<and> tx_message t = ''Payment pending verification''
         \<and> random_calls e' = random_calls e)
    \<and> (float_ge amount (Finite 10000) \<longrightarrow>
         tx_status t = PENDING \<and> tx_message t = ''Large transaction - manual review required''
         \<and> random_calls e' = random_calls e)
    \<and> (\<not> float_eq amount (Finite lit_0_01) \<and> \<not> float_eq amount (Finite lit_0_02)
        \<and> \<not> float_eq amount (Finite lit_0_03) \<and> \<not> float_ge amount (Finite 10000) \<longrightarrow>
         random_calls e' = Suc (random_calls e)
         \<and> (u < lit_0_90 \<longrightarrow>
              tx_status t = SUCCESS \<and> tx_message t = ''Payment processed successfully'')
         \<and> (lit_0_90 \<le> u \<and> u < lit_0_95 \<longrightarrow>
              tx_status t = FAILED \<and> tx_message t = ''Card declined by issuer'')
         \<and> (lit_0_95 \<le> u \<longrightarrow>
              tx_status t = PENDING \<and> tx_message t = ''Payment under review''))
    \<and> get_transaction txs' (tx_transaction_id t) = Some (Txn t)"
proof -
  define e1 where "e1 = snd (generate_transaction_id e)"
  have rs: "random_src e1 = random_src e" "random_calls e1 = random_calls e"
    by (simp_all add: e1_def generate_transaction_id_env)
  have small: "float_ge amount (Finite 10000) \<Longrightarrow>
      \<not> float_eq amount (Finite lit_0_01) \<and> \<not> float_eq amount (Finite lit_0_02)
      \<and> \<not> float_eq amount (Finite lit_0_03)"
    by (rule float_ge_10000_not_small)
  have excl: "float_eq amount (Finite lit_0_02) \<Longrightarrow> \<not> float_eq amount (Finite lit_0_01)"
    "float_eq amount (Finite lit_0_03) \<Longrightarrow> \<not> float_eq amount (Finite lit_0_01)"
    "float_eq amount (Finite lit_0_03) \<Longrightarrow> \<not> float_eq amount (Finite lit_0_02)"
    using lits_distinct by (cases amount; simp)+
  have lt: "u < lit_0_90 \<Longrightarrow> u < lit_0_95" for u
    using lits_distinct(4) by simp
  have ge: "lit_0_95 \<le> u \<Longrightarrow> \<not> u < lit_0_90" for u
    using lits_distinct(4) by simp
  show ?thesis
    unfolding process_payment_unfold Let_def e1_def [symmetric]
    using small excl lt ge
    by (auto simp add: simulate_processing_cases rs get_transaction_def dict_get_set)
qed

theorem process_payment_outcome_witness:
  "(let t = fst (process_payment [] ''tok_1'' (Finite lit_0_01) ''USD'' ''cust_1'' None None example_env)
    in tx_status t = FAILED \<and> tx_message t = ''Insufficient funds'')
   \<and> (let t = fst (process_payment [] ''tok_2'' (Finite lit_0_02) ''EUR'' ''cust_2'' None None example_env)
    in tx_status t = FAILED \<and> tx_message t = ''Card declined'')
   \<and> (let t = fst (process_payment [] ''tok_1'' (Finite lit_0_03) ''USD'' ''cust_1'' None None example_env)
    in tx_status t = PENDING \<and> tx_message t = ''Payment pending verification'')
   \<and> (let t = fst (process_payment [] ''tok_1'' (Finite 15000) ''USD'' ''cust_1'' None None example_env)
    in tx_status t = PENDING \<and> tx_message t = ''Large transaction - manual review required'')
   \<and> (let t = fst (process_payment [] ''tok_1'' (Finite lit_99_99) ''USD'' ''cust_1'' None None example_env)
    in tx_status t = SUCCESS \<and> tx_message t = ''Payment processed successfully'')
   \<and> (let t = fst (process_payment [] ''tok_1'' (Finite lit_99_99) ''USD'' ''cust_1'' None None
                  (example_env\<lparr>random_calls := 1\<rparr>))
    in tx_status t = FAILED \<and> tx_message t = ''Card declined by issuer'')
   \<and> (let t = fst (process_payment [] ''tok_1'' (Finite lit_99_99) ''USD'' ''cust_1'' None None
                  (example_env\<lparr>random_calls := 2\<rparr>))
    in tx_status t = PENDING \<and> tx_message t = ''Payment under review'')"
proof -
  have lits: "lit_99_99 \<noteq> lit_0_01" "lit_99_99 \<noteq> lit_0_02" "lit_99_99 \<noteq> lit_0_03"
      "\<not> 10000 \<le> lit_99_99"
    by (simp_all add: lit_99_99_def lit_0_01_def lit_0_02_def lit_0_03_def)
  have rnd: "random_calls example_env = 0"
      "random_src example_env 0 < lit_0_90"
      "lit_0_90 \<le> random_src example_env (Suc 0)" "random_src example_env (Suc 0) < lit_0_95"
      "lit_0_95 \<le> random_src example_env 2"
    by (simp_all add: example_env_def lit_0_90_def lit_0_95_def)
  show ?thesis
    using process_payment_outcome [of "[]" "''tok_1''" "Finite lit_0_01" "''USD''" "''cust_1''" None None example_env]
      process_payment_outcome [of "[]" "''tok_2''" "Finite lit_0_02" "''EUR''" "''cust_2''" None None example_env]
      process_payment_outcome [of "[]" "''tok_1''" "Finite lit_0_03" "''USD''" "''cust_1''" None None example_env]
      process_payment_outcome [of "[]" "''tok_1''" "Finite 15000" "''USD''" "''cust_1''" None None example_env]
      process_payment_outcome [of "[]" "''tok_1''" "Finite lit_99_99" "''USD''" "''cust_1''" None None example_env]
      process_payment_outcome [of "[]" "''tok_1''" "Finite lit_99_99" "''USD''" "''cust_1''" None None
        "example_env\<lparr>random_calls := 1\<rparr>"]
      process_payment_outcome [of "[]" "''tok_1''" "Finite lit_99_99" "''USD''" "''cust_1''" None None
        "example_env\<lparr>random_calls := 2\<rparr>"]
    by (simp add: Let_def lits rnd)
qed

section \<open>Refunds\<close>

lemma refund_transaction_unknown:
  "dict_get txs tid = None \<Longrightarrow> refund_transaction txs tid e = (None, txs, e)"
  by (simp add: refund_transaction_def)

lemma refund_transaction_rejected:
  "dict_get txs tid = Some tx \<Longrightarrow> entry_status tx \<noteq> SUCCESS \<Longrightarrow>
     refund_transaction txs tid e =
       (Some (Rejected False ''Only successful transactions can be refunded''), txs, e)"
  by (simp add: refund_transaction_def)

lemma refund_transaction_success:
  assumes "dict_get txs tid = Some tx" and "entry_status tx = SUCCESS"
  shows "refund_transaction txs tid e =
    (let r = \<lparr> rf_refund_id = next_id e, rf_original_transaction_id = tid,
                rf_amount = entry_amount tx, rf_currency = entry_currency tx,
                rf_customer_id = entry_customer_id tx, rf_status = SUCCESS,
                rf_message = ''Refund processed successfully'',
                rf_processed_at = utcnow_src e (Suc (utcnow_calls e)), rf_refunded = None \<rparr>;
         stored = dict_set txs (next_id e) (Rfd r)
     in (Some (Refund r),
         (if next_id e = tid then stored else dict_set stored tid (mark_refunded (next_id e) tx)),
         e\<lparr>utcnow_calls := Suc (Suc (utcnow_calls e)), token_hex_calls := Suc (token_hex_calls e)\<rparr>))"
  using assms
  by (simp add: refund_transaction_def next_id_def generate_transaction_id_def utcnow_def
      token_hex_def Let_def)

lemma entry_status_mark_refunded: "entry_status (mark_refunded rid tx) = entry_status tx"
  by (cases tx) simp_all

lemma entry_refunded_mark_refunded:
  "entry_refunded (mark_refunded rid tx) = Some True" "entry_refund_id (mark_refunded rid tx) = Some rid"
  by (cases tx; simp)+

text \<open>
  C2. A refund has three outcomes that the caller can tell apart. The answer is \<open>None\<close>
  exactly when no record is stored under the id. When the stored record's status is
  not success, the answer is the dict with \<open>success = False\<close> and the message "Only
  successful transactions can be refunded", which is not a refund record; the store and
  the environment are left as they were, so no refund record is created and the
  original is not changed.
\<close>

theorem refund_transaction_not_refundable:
  "(fst (refund_transaction txs tid e) = None \<longleftrightarrow> get_transaction txs tid = None)
   \<and> (get_transaction txs tid = None \<longrightarrow> refund_transaction txs tid e = (None, txs, e))
   \<and> (\<forall>tx. get_transaction txs tid = Some tx \<and> entry_status tx \<noteq> SUCCESS \<longrightarrow>
         (\<exists>res. refund_transaction txs tid e = (Some res, txs, e)
            \<and> success res = False
            \<and> message res = ''Only successful transactions can be refunded''
            \<and> (\<forall>r. res \<noteq> Refund r)))"
proof (cases "dict_get txs tid")
  case None
  then show ?thesis
    by (simp add: get_transaction_def refund_transaction_unknown)
next
  case (Some tx)
  show ?thesis
  proof (cases "entry_status tx = SUCCESS")
    case True
    with Some show ?thesis
      by (simp add: get_transaction_def refund_transaction_success Let_def)
  next
    case False
    with Some show ?thesis
      by (simp add: get_transaction_def refund_transaction_rejected)
  qed
qed

theorem refund_transaction_not_refundable_witness:
  "refund_transaction example_store ''txn_Z'' example_env = (None, example_store, example_env)
   \<and> (\<exists>res. refund_transaction example_store ''txn_B'' example_env = (Some res, example_store, example_env)
         \<and> success res = False
         \<and> message res = ''Only successful transactions can be refunded'')
   \<and> fst (refund_transaction example_store ''txn_A'' example_env) \<noteq> None"
proof -
  have z: "get_transaction example_store ''txn_Z'' = None"
    by (simp add: get_transaction_def example_store_def)
  obtain tx where b: "get_transaction example_store ''txn_B'' = Some tx" "entry_status tx \<noteq> SUCCESS"
    by (simp add: get_transaction_def example_store_def example_transaction_def)
  have a: "get_transaction example_store ''txn_A'' \<noteq> None"
    by (simp add: get_transaction_def example_store_def)
  from z refund_transaction_not_refundable [of example_store "''txn_Z''" example_env]
  have 1: "refund_transaction example_store ''txn_Z'' example_env = (None, example_store, example_env)"
    by blast
  from b refund_transaction_not_refundable [of example_store "''txn_B''" example_env]
  have 2: "\<exists>res. refund_transaction example_store ''txn_B'' example_env = (Some res, example_store, example_env)
         \<and> success res = False
         \<and> message res = ''Only successful transactions can be refunded''"
    by blast
  from a refund_transaction_not_refundable [of example_store "''txn_A''" example_env]
  have 3: "fst (refund_transaction example_store ''txn_A'' example_env) \<noteq> None"
    by simp
  from 1 2 3 show ?thesis
    by (intro conjI)
qed


lemma refund_transaction_success_facts:
  assumes "dict_get txs tid = Some tx" and "entry_status tx = SUCCESS"
  shows "\<exists>r txs1 e1. refund_transaction txs tid e = (Some (Refund r), txs1, e1)
     \<and> rf_refund_id r = next_id e \<and> rf_original_transaction_id r = tid
     \<and> rf_amount r = entry_amount tx \<and> rf_currency r = entry_currency tx
     \<and> rf_customer_id r = entry_customer_id tx \<and> rf_status r = SUCCESS
     \<and> rf_refunded r = None
     \<and> dict_get txs1 (next_id e) = Some (Rfd r)
     \<and> (next_id e \<noteq> tid \<longrightarrow> dict_get txs1 tid = Some (mark_refunded (next_id e) tx))
     \<and> (\<forall>k. k \<noteq> tid \<and> k \<noteq> next_id e \<longrightarrow> dict_get txs1 k = dict_get txs k)"
  by (simp add: refund_transaction_success [OF assms] Let_def dict_get_set)

lemma refund_twice:
  assumes "get_transaction txs tid = Some tx" and "entry_status tx = SUCCESS"
  shows "\<exists>r txs1 e1. refund_transaction txs tid e = (Some (Refund r), txs1, e1)
     \<and> rf_status r = SUCCESS \<and> rf_original_transaction_id r = tid \<and> rf_refund_id r = next_id e
     \<and> get_transaction txs1 (next_id e) = Some (Rfd r)
     \<and> (next_id e \<noteq> tid \<longrightarrow>
          (\<exists>tx1. get_transaction txs1 tid = Some tx1 \<and> tx1 = mark_refunded (next_id e) tx
             \<and> entry_refunded tx1 = Some True \<and> entry_refund_id tx1 = Some (next_id e)
             \<and> entry_status tx1 = SUCCESS)
          \<and> (\<exists>r2 txs2 e2. refund_transaction txs1 tid e1 = (Some (Refund r2), txs2, e2)
               \<and> rf_status r2 = SUCCESS \<and> rf_original_transaction_id r2 = tid
               \<and> rf_refund_id r2 = next_id e1
               \<and> get_transaction txs2 (next_id e1) = Some (Rfd r2)
               \<and> (next_id e1 \<noteq> tid \<longrightarrow>
                    (\<exists>tx2. get_transaction txs2 tid = Some tx2 \<and> entry_refunded tx2 = Some True
                       \<and> entry_refund_id tx2 = Some (next_id e1)))
               \<and> (next_id e1 \<noteq> tid \<and> next_id e1 \<noteq> next_id e \<longrightarrow>
                    get_transaction txs2 (next_id e) = Some (Rfd r))))"
proof -
  from assms have a: "dict_get txs tid = Some tx"
    by (simp add: get_transaction_def)
  from refund_transaction_success_facts [OF a assms(2), of e]
  obtain r txs1 e1 where first: "refund_transaction txs tid e = (Some (Refund r), txs1, e1)"
    and r: "rf_refund_id r = next_id e" "rf_original_transaction_id r = tid" "rf_status r = SUCCESS"
    and stored: "dict_get txs1 (next_id e) = Some (Rfd r)"
    and orig: "next_id e \<noteq> tid \<longrightarrow> dict_get txs1 tid = Some (mark_refunded (next_id e) tx)"
    by blast
  have second: "\<exists>r2 txs2 e2. refund_transaction txs1 tid e1 = (Some (Refund r2), txs2, e2)
               \<and> rf_status r2 = SUCCESS \<and> rf_original_transaction_id r2 = tid
               \<and> rf_refund_id r2 = next_id e1
               \<and> get_transaction txs2 (next_id e1) = Some (Rfd r2)
               \<and> (next_id e1 \<noteq> tid \<longrightarrow>
                    (\<exists>tx2. get_transaction txs2 tid = Some tx2 \<and> entry_refunded tx2 = Some True
                       \<and> entry_refund_id tx2 = Some (next_id e1)))
               \<and> (next_id e1 \<noteq> tid \<and> next_id e1 \<noteq> next_id e \<longrightarrow>
                    get_transaction txs2 (next_id e) = Some (Rfd r))"
    if ne: "next_id e \<noteq> tid"
  proof -
    from ne orig have b: "dict_get txs1 tid = Some (mark_refunded (next_id e) tx)"
      by simp
    have c: "entry_status (mark_refunded (next_id e) tx) = SUCCESS"
      by (simp add: entry_status_mark_refunded assms(2))
    from refund_transaction_success_facts [OF b c, of e1]
    obtain r2 txs2 e2 where snd: "refund_transaction txs1 tid e1 = (Some (Refund r2), txs2, e2)"
      and r2: "rf_refund_id r2 = next_id e1" "rf_original_transaction_id r2 = tid" "rf_status r2 = SUCCESS"
      and stored2: "dict_get txs2 (next_id e1) = Some (Rfd r2)"
      and orig2: "next_id e1 \<noteq> tid \<longrightarrow>
          dict_get txs2 tid = Some (mark_refunded (next_id e1) (mark_refunded (next_id e) tx))"
      and others: "\<forall>k. k \<noteq> tid \<and> k \<noteq> next_id e1 \<longrightarrow> dict_get txs2 k = dict_get txs1 k"
      by blast
    from others ne stored
    have keep: "next_id e1 \<noteq> tid \<and> next_id e1 \<noteq> next_id e \<longrightarrow> dict_get txs2 (next_id e) = Some (Rfd r)"
      by metis
    show ?thesis
      using snd r2 stored2 orig2 keep
      by (simp add: get_transaction_def entry_refunded_mark_refunded)
  qed
  show ?thesis
    using first r stored orig second
    by (simp add: get_transaction_def entry_refunded_mark_refunded entry_status_mark_refunded assms(2))
qed

lemma next_id_unfold:
  "next_id e = ''txn_'' @ strftime e (utcnow_src e (utcnow_calls e)) @ ''_''
      @ token_hex_src e (token_hex_calls e) 8"
  by (simp add: next_id_def generate_transaction_id_def utcnow_def token_hex_def Let_def)

lemma replicate_15: "replicate 15 c = [c, c, c, c, c, c, c, c, c, c, c, c, c, c, c]"
  by (simp add: eval_nat_numeral)

lemma next_id_example:
  "utcnow_src e = utcnow_src example_env \<Longrightarrow> strftime e = strftime example_env \<Longrightarrow>
   token_hex_src e = token_hex_src example_env \<Longrightarrow>
   next_id e = ''txn_20240101000000_000000000000000'' @ [''0123456789abcdef'' ! (token_hex_calls e mod 16)]"
  by (simp add: next_id_unfold example_env_def replicate_15)

text \<open>
  C3. Refunding a stored record whose status is success, refunded before or not, returns
  a refund record with status success whose \<open>original_transaction_id\<close> is the given
  id, and stores it under the generated refund id. When that id is not the id of the
  original, the original stays stored with \<open>refunded = True\<close> and \<open>refund_id\<close> the new
  id, its status still success. A second refund of the same id therefore succeeds again,
  stores a second refund record, and overwrites the original's \<open>refund_id\<close>; the first
  refund record stays stored when the second id is different from it.
\<close>

theorem refund_transaction_refunds:
  assumes "get_transaction txs tid = Some tx" and "entry_status tx = SUCCESS"
  shows "let res = refund_transaction txs tid e; txs1 = fst (snd res); e1 = snd (snd res);
             rid = next_id e;
             res2 = refund_transaction txs1 tid e1; txs2 = fst (snd res2); rid2 = next_id e1
         in (\<exists>r. fst res = Some (Refund r) \<and> rf_status r = SUCCESS
               \<and> rf_original_transaction_id r = tid \<and> rf_refund_id r = rid
               \<and> get_transaction txs1 rid = Some (Rfd r)
               \<and> (rid \<noteq> tid \<and> rid2 \<noteq> tid \<and> rid2 \<noteq> rid \<longrightarrow> get_transaction txs2 rid = Some (Rfd r)))
          \<and> (rid \<noteq> tid \<longrightarrow>
               get_transaction txs1 tid = Some (mark_refunded rid tx)
               \<and> entry_refunded (mark_refunded rid tx) = Some True
               \<and> entry_refund_id (mark_refunded rid tx) = Some rid
               \<and> entry_status (mark_refunded rid tx) = SUCCESS
               \<and> (\<exists>r2. fst res2 = Some (Refund r2) \<and> rf_status r2 = SUCCESS
                     \<and> rf_original_transaction_id r2 = tid \<and> rf_refund_id r2 = rid2
                     \<and> get_transaction txs2 rid2 = Some (Rfd r2))
               \<and> (rid2 \<noteq> tid \<longrightarrow>
                    (\<exists>tx2. get_transaction txs2 tid = Some tx2 \<and> entry_refunded tx2 = Some True
                       \<and> entry_refund_id tx2 = Some rid2)))"
proof -
  from refund_twice [OF assms, of e]
  obtain r txs1 e1 where first: "refund_transaction txs tid e = (Some (Refund r), txs1, e1)"
    and rest: "rf_status r = SUCCESS \<and> rf_original_transaction_id r = tid \<and> rf_refund_id r = next_id e
     \<and> get_transaction txs1 (next_id e) = Some (Rfd r)
     \<and> (next_id e \<noteq> tid \<longrightarrow>
          (\<exists>tx1. get_transaction txs1 tid = Some tx1 \<and> tx1 = mark_refunded (next_id e) tx
             \<and> entry_refunded tx1 = Some True \<and> entry_refund_id tx1 = Some (next_id e)
             \<and> entry_status tx1 = SUCCESS)
          \<and> (\<exists>r2 txs2 e2. refund_transaction txs1 tid e1 = (Some (Refund r2), txs2, e2)
               \<and> rf_status r2 = SUCCESS \<and> rf_original_transaction_id r2 = tid
               \<and> rf_refund_id r2 = next_id e1
               \<and> get_transaction txs2 (next_id e1) = Some (Rfd r2)
               \<and> (next_id e1 \<noteq> tid \<longrightarrow>
                    (\<exists>tx2. get_transaction txs2 tid = Some tx2 \<and> entry_refunded tx2 = Some True
                       \<and> entry_refund_id tx2 = Some (next_id e1)))
               \<and> (next_id e1 \<noteq> tid \<and> next_id e1 \<noteq> next_id e \<longrightarrow>
                    get_transaction txs2 (next_id e) = Some (Rfd r))))"
    by blast
  show ?thesis
    unfolding Let_def first fst_conv snd_conv
    using rest by fastforce
qed

theorem refund_transaction_refunds_witness:
  "let res = refund_transaction example_store ''txn_A'' example_env;
       txs1 = fst (snd res); e1 = snd (snd res);
       res2 = refund_transaction txs1 ''txn_A'' e1; txs2 = fst (snd res2)
   in (\<exists>r. fst res = Some (Refund r) \<and> rf_status r = SUCCESS
         \<and> rf_original_transaction_id r = ''txn_A''
         \<and> rf_refund_id r = ''txn_20240101000000_0000000000000000''
         \<and> get_transaction txs1 ''txn_20240101000000_0000000000000000'' = Some (Rfd r)
         \<and> get_transaction txs2 ''txn_20240101000000_0000000000000000'' = Some (Rfd r))
    \<and> (\<exists>tx1. get_transaction txs1 ''txn_A'' = Some tx1 \<and> entry_refunded tx1 = Some True
          \<and> entry_refund_id tx1 = Some ''txn_20240101000000_0000000000000000'')
    \<and> (\<exists>r2. fst res2 = Some (Refund r2) \<and> rf_original_transaction_id r2 = ''txn_A''
          \<and> get_transaction txs2 ''txn_20240101000000_0000000000000001'' = Some (Rfd r2))
    \<and> (\<exists>tx2. get_transaction txs2 ''txn_A'' = Some tx2 \<and> entry_refunded tx2 = Some True
          \<and> entry_refund_id tx2 = Some ''txn_20240101000000_0000000000000001'')"
proof -
  have h1: "get_transaction example_store ''txn_A'' = Some (Txn example_transaction)"
    by (simp add: get_transaction_def example_store_def)
  have h2: "entry_status (Txn example_transaction) = SUCCESS"
    by (simp add: example_transaction_def)
  have d: "dict_get example_store ''txn_A'' = Some (Txn example_transaction)"
    by (simp add: example_store_def)
  have e1: "snd (snd (refund_transaction example_store ''txn_A'' example_env))
      = example_env\<lparr>utcnow_calls := Suc (Suc (utcnow_calls example_env)),
          token_hex_calls := Suc (token_hex_calls example_env)\<rparr>"
    by (simp add: refund_transaction_success [OF d h2] Let_def)
  have rid: "next_id example_env = ''txn_20240101000000_0000000000000000''"
    by (simp add: next_id_example) (simp add: example_env_def)
  have rid2: "next_id (snd (snd (refund_transaction example_store ''txn_A'' example_env)))
      = ''txn_20240101000000_0000000000000001''"
    unfolding e1 by (simp add: next_id_example) (simp add: example_env_def)
  show ?thesis
    using refund_transaction_refunds [OF h1 h2, of example_env]
    unfolding Let_def rid rid2
    by fastforce
qed

text \<open>
  C10. The refund record of a successful refund takes amount, currency and customer id
  from the original, is stored in the same store under its refund id, so that
  \<open>get_transaction\<close> finds it there, and is listed by \<open>get_customer_transactions\<close> for
  the original's customer. It is a record of the refund shape: it has a \<open>refund_id\<close>
  and no \<open>transaction_id\<close>, token or card info.
\<close>

theorem refund_record_stored:
  assumes "get_transaction txs tid = Some tx" and "entry_status tx = SUCCESS"
  shows "let res = refund_transaction txs tid e; txs1 = fst (snd res)
         in \<exists>r. fst res = Some (Refund r)
              \<and> rf_amount r = entry_amount tx \<and> rf_currency r = entry_currency tx
              \<and> rf_customer_id r = entry_customer_id tx
              \<and> get_transaction txs1 (rf_refund_id r) = Some (Rfd r)
              \<and> Rfd r \<in> set (get_customer_transactions txs1 (entry_customer_id tx))"
proof -
  from assms have a: "dict_get txs tid = Some tx"
    by (simp add: get_transaction_def)
  from refund_transaction_success_facts [OF a assms(2), of e]
  obtain r txs1 e1 where first: "refund_transaction txs tid e = (Some (Refund r), txs1, e1)"
    and r: "rf_refund_id r = next_id e" "rf_amount r = entry_amount tx"
      "rf_currency r = entry_currency tx" "rf_customer_id r = entry_customer_id tx"
    and stored: "dict_get txs1 (next_id e) = Some (Rfd r)"
    by blast
  from stored have "Rfd r \<in> set (dict_values txs1)"
    by (rule dict_get_Some_in_values)
  with r have "Rfd r \<in> set (get_customer_transactions txs1 (entry_customer_id tx))"
    by (simp add: get_customer_transactions_def)
  with first r stored show ?thesis
    by (simp add: Let_def get_transaction_def)
qed

theorem refund_record_stored_witness:
  "let res = refund_transaction example_store ''txn_A'' example_env; txs1 = fst (snd res)
   in \<exists>r. fst res = Some (Refund r)
        \<and> rf_amount r = Finite lit_99_99 \<and> rf_currency r = ''USD'' \<and> rf_customer_id r = ''cust_1''
        \<and> get_transaction txs1 (rf_refund_id r) = Some (Rfd r)
        \<and> Rfd r \<in> set (get_customer_transactions txs1 ''cust_1'')"
proof -
  have h1: "get_transaction example_store ''txn_A'' = Some (Txn example_transaction)"
    by (simp add: get_transaction_def example_store_def)
  have h2: "entry_status (Txn example_transaction) = SUCCESS"
    by (simp add: example_transaction_def)
  show ?thesis
    using refund_record_stored [OF h1 h2, of example_env]
    by (simp add: Let_def example_transaction_def)
qed

section \<open>What a stored transaction keeps\<close>

lemma same_but_refund_fields_refl: "same_but_refund_fields t t"
  by (simp add: same_but_refund_fields_def)

lemma same_but_refund_fields_trans:
  "same_but_refund_fields t t' \<Longrightarrow> same_but_refund_fields t' t'' \<Longrightarrow> same_but_refund_fields t t''"
  by (simp add: same_but_refund_fields_def)

lemma stored_key_not_fresh:
  "dict_get txs k = Some v \<Longrightarrow> next_id_fresh txs e \<Longrightarrow> k \<noteq> next_id e"
  using dict_get_None_iff [of txs k] by (auto simp: next_id_fresh_def)

lemma process_payment_frame:
  "k \<noteq> next_id e \<Longrightarrow>
     dict_get (fst (snd (process_payment txs token amount currency customer_id description token_data e))) k
       = dict_get txs k"
  by (simp add: process_payment_unfold Let_def dict_get_set)

lemma refund_transaction_frame:
  assumes "dict_get txs k = Some (Txn t)"
    and "generates_id (RefundTransaction tid) txs \<longrightarrow> k \<noteq> next_id e"
  shows "\<exists>t'. dict_get (fst (snd (refund_transaction txs tid e))) k = Some (Txn t')
           \<and> same_but_refund_fields t t'"
proof (cases "dict_get txs tid")
  case None
  with assms(1) show ?thesis
    by (auto simp: refund_transaction_unknown same_but_refund_fields_refl)
next
  case (Some tx)
  show ?thesis
  proof (cases "entry_status tx = SUCCESS")
    case False
    with Some assms(1) show ?thesis
      by (auto simp: refund_transaction_rejected same_but_refund_fields_refl)
  next
    case True
    with Some assms(2) have ne: "k \<noteq> next_id e"
      by simp
    show ?thesis
    proof (cases "k = tid")
      case True
      with Some assms(1) have tx: "tx = Txn t"
        by simp
      from True ne \<open>entry_status tx = SUCCESS\<close> Some show ?thesis
        by (simp add: refund_transaction_success Let_def dict_get_set tx same_but_refund_fields_def)
    next
      case False
      with ne \<open>entry_status tx = SUCCESS\<close> Some assms(1) show ?thesis
        by (simp add: refund_transaction_success Let_def dict_get_set same_but_refund_fields_refl)
    qed
  qed
qed

lemma exec_frame:
  assumes "dict_get txs k = Some (Txn t)"
    and "generates_id c txs \<longrightarrow> next_id_fresh txs e"
  shows "\<exists>t'. dict_get (fst (snd (exec c (txs, e)))) k = Some (Txn t') \<and> same_but_refund_fields t t'"
proof (cases c)
  case (ProcessPayment token amount currency customer_id description token_data)
  with assms have ne: "k \<noteq> next_id e"
    by (simp add: stored_key_not_fresh)
  obtain t0 txs1 e1
    where pp: "process_payment txs token amount currency customer_id description token_data e = (t0, txs1, e1)"
    by (cases "process_payment txs token amount currency customer_id description token_data e")
  from process_payment_frame [OF ne, of txs token amount currency customer_id description token_data] pp
  have "dict_get txs1 k = dict_get txs k"
    by simp
  with ProcessPayment pp assms(1) show ?thesis
    by (simp add: same_but_refund_fields_refl)
next
  case (GetTransaction i)
  with assms(1) show ?thesis
    by (simp add: same_but_refund_fields_refl)
next
  case (GetCustomerTransactions i)
  with assms(1) show ?thesis
    by (simp add: same_but_refund_fields_refl)
next
  case (RefundTransaction tid)
  with assms have "generates_id (RefundTransaction tid) txs \<longrightarrow> k \<noteq> next_id e"
    using stored_key_not_fresh by blast
  from refund_transaction_frame [OF assms(1) this]
  obtain t' where t': "dict_get (fst (snd (refund_transaction txs tid e))) k = Some (Txn t')"
      "same_but_refund_fields t t'"
    by blast
  obtain r txs1 e1 where rt: "refund_transaction txs tid e = (r, txs1, e1)"
    by (cases "refund_transaction txs tid e")
  with t' RefundTransaction show ?thesis
    by simp
qed

lemma run_frame:
  "fresh_run cs (txs, e) \<Longrightarrow> dict_get txs k = Some (Txn t) \<Longrightarrow>
     \<exists>t'. dict_get (fst (run cs (txs, e))) k = Some (Txn t') \<and> same_but_refund_fields t t'"
proof (induction cs arbitrary: txs e t)
  case Nil
  then show ?case
    by (simp add: same_but_refund_fields_refl)
next
  case (Cons c cs)
  from Cons.prems have fresh: "generates_id c txs \<longrightarrow> next_id_fresh txs e"
    and rest: "fresh_run cs (snd (exec c (txs, e)))"
    by simp_all
  obtain resp txs1 e1 where ex: "exec c (txs, e) = (resp, txs1, e1)"
    by (cases "exec c (txs, e)")
  from exec_frame [OF Cons.prems(2) fresh] ex
  obtain t1 where t1: "dict_get txs1 k = Some (Txn t1)" "same_but_refund_fields t t1"
    by auto
  from rest ex have "fresh_run cs (txs1, e1)"
    by simp
  from Cons.IH [OF this t1(1)]
  obtain t' where "dict_get (fst (run cs (txs1, e1))) k = Some (Txn t')" "same_but_refund_fields t1 t'"
    by blast
  with t1(2) ex show ?case
    by (auto intro: same_but_refund_fields_trans)
qed

text \<open>
  C8. The status of a stored transaction never changes. Along any run of processor calls
  in which every generated id is fresh, a transaction stored under an id stays stored
  under it and keeps every field except \<open>refunded\<close> and \<open>refund_id\<close>: transaction id,
  token, amount, currency, customer id, description, status, message, processing time
  and card info. A refund changes the original in exactly these two fields: it sets
  \<open>refunded\<close> to \<open>True\<close> and \<open>refund_id\<close> to the new refund id.
\<close>

theorem status_fixed_at_creation:
  "(fresh_run cs (txs, e) \<and> get_transaction txs k = Some (Txn t) \<longrightarrow>
      (\<exists>t'. get_transaction (fst (run cs (txs, e))) k = Some (Txn t')
         \<and> tx_status t' = tx_status t \<and> same_but_refund_fields t t'))
   \<and> (get_transaction txs tid = Some (Txn t) \<and> tx_status t = SUCCESS \<and> next_id e \<noteq> tid \<longrightarrow>
        get_transaction (fst (snd (refund_transaction txs tid e))) tid
          = Some (Txn (t\<lparr>tx_refunded := Some True, tx_refund_id := Some (next_id e)\<rparr>)))"
proof (intro conjI impI)
  assume a: "fresh_run cs (txs, e) \<and> get_transaction txs k = Some (Txn t)"
  then have "dict_get txs k = Some (Txn t)"
    by (simp add: get_transaction_def)
  from run_frame [OF _ this, of cs e] a
  obtain t' where "dict_get (fst (run cs (txs, e))) k = Some (Txn t')" "same_but_refund_fields t t'"
    by blast
  then show "\<exists>t'. get_transaction (fst (run cs (txs, e))) k = Some (Txn t')
         \<and> tx_status t' = tx_status t \<and> same_but_refund_fields t t'"
    by (auto simp: get_transaction_def same_but_refund_fields_def)
next
  assume b: "get_transaction txs tid = Some (Txn t) \<and> tx_status t = SUCCESS \<and> next_id e \<noteq> tid"
  then have "dict_get txs tid = Some (Txn t)" "entry_status (Txn t) = SUCCESS"
    by (simp_all add: get_transaction_def)
  from refund_transaction_success [OF this, of e] b
  show "get_transaction (fst (snd (refund_transaction txs tid e))) tid
          = Some (Txn (t\<lparr>tx_refunded := Some True, tx_refund_id := Some (next_id e)\<rparr>))"
    by (simp add: Let_def get_transaction_def dict_get_set)
qed

theorem status_fixed_at_creation_witness:
  "(\<exists>t'. get_transaction
            (fst (run [RefundTransaction ''txn_A'', GetTransaction ''txn_A'', RefundTransaction ''txn_B'']
                   (example_store, example_env))) ''txn_A'' = Some (Txn t')
         \<and> tx_status t' = SUCCESS \<and> same_but_refund_fields example_transaction t')
   \<and> get_transaction (fst (snd (refund_transaction example_store ''txn_A'' example_env))) ''txn_A''
        = Some (Txn (example_transaction\<lparr>tx_refunded := Some True,
             tx_refund_id := Some ''txn_20240101000000_0000000000000000''\<rparr>))"
proof -
  have g: "get_transaction example_store ''txn_A'' = Some (Txn example_transaction)"
    by (simp add: get_transaction_def example_store_def)
  have s: "tx_status example_transaction = SUCCESS"
    by (simp add: example_transaction_def)
  have rid: "next_id example_env = ''txn_20240101000000_0000000000000000''"
    by (simp add: next_id_example) (simp add: example_env_def)
  have ne: "next_id example_env \<noteq> ''txn_A''"
    by (simp add: rid)
  have d: "dict_get example_store ''txn_A'' = Some (Txn example_transaction)"
    by (simp add: example_store_def)
  have f1: "next_id_fresh example_store example_env"
    by (simp add: next_id_fresh_def rid dict_keys_def example_store_def)
  have g1: "generates_id (RefundTransaction ''txn_B'') txs = False"
    if "dict_get txs ''txn_B'' = dict_get example_store ''txn_B''" for txs
    using that by (simp add: example_store_def example_transaction_def)
  have st1: "dict_get (fst (snd (refund_transaction example_store ''txn_A'' example_env))) ''txn_B''
      = dict_get example_store ''txn_B''"
    using refund_transaction_success [OF d, of example_env] s
    by (simp add: Let_def dict_get_set rid)
  have f: "fresh_run [RefundTransaction ''txn_A'', GetTransaction ''txn_A'', RefundTransaction ''txn_B'']
      (example_store, example_env)"
    using f1 g1 [OF st1] by (simp split: prod.splits) (metis fst_conv snd_conv g1 st1)
  show ?thesis
    using status_fixed_at_creation [of "[RefundTransaction ''txn_A'', GetTransaction ''txn_A'',
        RefundTransaction ''txn_B'']" example_store example_env "''txn_A''" example_transaction "''txn_A''"]
      f g s ne
    by (simp add: rid)
qed

section \<open>Listing a customer's transactions\<close>

lemma get_customer_transactions_stored_matching:
  "get_customer_transactions txs c = stored_matching txs c"
  by (induction txs) (auto simp: get_customer_transactions_def dict_values_def)

lemma get_customer_transactions_append:
  "get_customer_transactions (txs @ [(k, v)]) c
     = get_customer_transactions txs c @ (if entry_customer_id v = c then [v] else [])"
  by (simp add: get_customer_transactions_def dict_values_def)

lemma process_payment_customer_id:
  "tx_customer_id (fst (process_payment txs token amount currency customer_id description token_data e))
     = customer_id"
  by (simp add: process_payment_unfold Let_def)

lemma process_payment_store:
  "fst (snd (process_payment txs token amount currency customer_id description token_data e))
     = dict_set txs (next_id e)
         (Txn (fst (process_payment txs token amount currency customer_id description token_data e)))"
  by (simp add: process_payment_unfold Let_def)

text \<open>
  C6. \<open>get_customer_transactions\<close> returns exactly the stored records whose customer id
  is the argument, in the insertion order of the store: the list is the one the
  specification describes, its members are the stored records with that customer id, and
  it is a subsequence of the store's values. It is empty when no stored record matches.
  The call leaves store and environment as they were. A payment processed under a fresh
  id comes last in its customer's list and changes no other customer's list, so the
  order is the order of creation.
\<close>

theorem get_customer_transactions_in_order:
  "get_customer_transactions txs c = stored_matching txs c
   \<and> (\<forall>v. v \<in> set (get_customer_transactions txs c)
          \<longleftrightarrow> v \<in> set (dict_values txs) \<and> entry_customer_id v = c)
   \<and> subseq (get_customer_transactions txs c) (dict_values txs)
   \<and> ((\<forall>v \<in> set (dict_values txs). entry_customer_id v \<noteq> c) \<longrightarrow> get_customer_transactions txs c = [])
   \<and> exec (GetCustomerTransactions c) (txs, e) = (Listing (get_customer_transactions txs c), txs, e)
   \<and> (next_id_fresh txs e \<longrightarrow>
        (let r = process_payment txs token amount currency customer_id description token_data e
         in get_customer_transactions (fst (snd r)) c
              = get_customer_transactions txs c @ (if customer_id = c then [Txn (fst r)] else [])))"
proof (intro conjI impI)
  show "get_customer_transactions txs c = stored_matching txs c"
    by (rule get_customer_transactions_stored_matching)
  show "\<forall>v. v \<in> set (get_customer_transactions txs c)
          \<longleftrightarrow> v \<in> set (dict_values txs) \<and> entry_customer_id v = c"
    by (simp add: get_customer_transactions_def)
  show "subseq (get_customer_transactions txs c) (dict_values txs)"
    by (simp add: get_customer_transactions_def)
  show "get_customer_transactions txs c = []"
    if "\<forall>v \<in> set (dict_values txs). entry_customer_id v \<noteq> c"
    using that by (simp add: get_customer_transactions_def filter_empty_conv)
  show "exec (GetCustomerTransactions c) (txs, e) = (Listing (get_customer_transactions txs c), txs, e)"
    by simp
  show "let r = process_payment txs token amount currency customer_id description token_data e
         in get_customer_transactions (fst (snd r)) c
              = get_customer_transactions txs c @ (if customer_id = c then [Txn (fst r)] else [])"
    if "next_id_fresh txs e"
  proof -
    from that have "next_id e \<notin> set (dict_keys txs)"
      by (simp add: next_id_fresh_def)
    then show ?thesis
      unfolding Let_def process_payment_store
      by (simp add: dict_set_fresh get_customer_transactions_append process_payment_customer_id)
  qed
qed

theorem get_customer_transactions_in_order_witness:
  "get_customer_transactions example_store ''cust_2''
      = [the (get_transaction example_store ''txn_B''), the (get_transaction example_store ''txn_C'')]
   \<and> get_customer_transactions example_store ''cust_9'' = []
   \<and> (let r = process_payment example_store ''tok_1'' (Finite lit_99_99) ''USD'' ''cust_2'' None None example_env
       in get_customer_transactions (fst (snd r)) ''cust_2''
            = get_customer_transactions example_store ''cust_2'' @ [Txn (fst r)])"
proof -
  have rid: "next_id example_env = ''txn_20240101000000_0000000000000000''"
    by (simp add: next_id_example) (simp add: example_env_def)
  have f: "next_id_fresh example_store example_env"
    by (simp add: next_id_fresh_def rid dict_keys_def example_store_def)
  have 1: "get_customer_transactions example_store ''cust_2''
      = [the (get_transaction example_store ''txn_B''), the (get_transaction example_store ''txn_C'')]"
    using get_customer_transactions_in_order [of example_store "''cust_2''"]
    by (simp add: example_store_def example_transaction_def get_transaction_def)
  have n: "\<forall>v \<in> set (dict_values example_store). entry_customer_id v \<noteq> ''cust_9''"
    by (simp add: dict_values_def example_store_def example_transaction_def)
  have 2: "get_customer_transactions example_store ''cust_9'' = []"
    using get_customer_transactions_in_order [of example_store "''cust_9''"] n
    by blast
  have 3: "let r = process_payment example_store ''tok_1'' (Finite lit_99_99) ''USD'' ''cust_2'' None None example_env
       in get_customer_transactions (fst (snd r)) ''cust_2''
            = get_customer_transactions example_store ''cust_2'' @ [Txn (fst r)]"
    using get_customer_transactions_in_order [of example_store "''cust_2''" example_env "''tok_1''"
        "Finite lit_99_99" "''USD''" "''cust_2''" None None,
        THEN conjunct2, THEN conjunct2, THEN conjunct2, THEN conjunct2, THEN conjunct2, THEN mp, OF f]
    by simp
  from 1 2 3 show ?thesis
    by (intro conjI)
qed

section \<open>Token validation\<close>

lemma validate_token_cases:
  "validate_token tokens token e =
     (case dict_get tokens token of
        None \<Rightarrow> (None, tokens, e)
      | Some td \<Rightarrow>
          if \<not> tk_is_valid td then (None, tokens, e)
          else if tk_expires_at td < utcnow_src e (utcnow_calls e)
            then (None, dict_set tokens token (td\<lparr>tk_is_valid := False\<rparr>),
                  e\<lparr>utcnow_calls := Suc (utcnow_calls e)\<rparr>)
          else (Some td, tokens, e\<lparr>utcnow_calls := Suc (utcnow_calls e)\<rparr>))"
  by (simp add: validate_token_def utcnow_def Let_def split: option.splits)

text \<open>
  C4. \<open>validate_token\<close> returns the stored record exactly when the token is in the
  store, its \<open>is_valid\<close> flag is set and the clock is not past \<open>expires_at\<close>; the store
  is then unchanged. It returns \<open>None\<close> and changes nothing for an unknown token and
  for a record already marked invalid. For a record whose flag is set and whose
  \<open>expires_at\<close> is past, it returns \<open>None\<close> and stores the record with the flag
  cleared, which a later \<open>get_token_info\<close> shows; no other token is touched.
  \<open>get_token_info\<close> is the plain lookup: it reads no clock and changes nothing, so it
  returns the record as stored, stale flag included, or \<open>None\<close>.
\<close>

theorem validate_token_lazy_expiry:
  "let now = utcnow_src e (utcnow_calls e);
       res = validate_token tokens token e;
       tokens1 = fst (snd res)
   in (\<forall>r. fst res = Some r \<longleftrightarrow>
          get_token_info tokens token = Some r \<and> tk_is_valid r \<and> \<not> tk_expires_at r < now)
    \<and> (fst res \<noteq> None \<longrightarrow> tokens1 = tokens)
    \<and> (get_token_info tokens token = None \<longrightarrow> res = (None, tokens, e))
    \<and> (\<forall>r. get_token_info tokens token = Some r \<and> \<not> tk_is_valid r \<longrightarrow> res = (None, tokens, e))
    \<and> (\<forall>r. get_token_info tokens token = Some r \<and> tk_is_valid r \<and> tk_expires_at r < now \<longrightarrow>
          fst res = None
          \<and> get_token_info tokens1 token = Some (r\<lparr>tk_is_valid := False\<rparr>)
          \<and> (\<forall>k. k \<noteq> token \<longrightarrow> get_token_info tokens1 k = get_token_info tokens k))
    \<and> get_token_info tokens token = dict_get tokens token"
  by (cases "dict_get tokens token")
     (auto simp add: Let_def validate_token_cases get_token_info_def dict_get_set)

theorem validate_token_lazy_expiry_witness:
  "fst (validate_token example_tokens ''tok_1'' example_env) = Some example_token
   \<and> validate_token example_tokens ''tok_none'' example_env = (None, example_tokens, example_env)
   \<and> validate_token example_tokens ''tok_bad'' example_env = (None, example_tokens, example_env)
   \<and> fst (validate_token example_tokens ''tok_old'' example_env) = None
   \<and> get_token_info example_tokens ''tok_old''
        = Some (example_token\<lparr>tk_token := ''tok_old'', tk_expires_at := 63839663999999999\<rparr>)
   \<and> get_token_info (fst (snd (validate_token example_tokens ''tok_old'' example_env))) ''tok_old''
        = Some (example_token\<lparr>tk_token := ''tok_old'', tk_expires_at := 63839663999999999,
             tk_is_valid := False\<rparr>)"
proof -
  have now: "utcnow_src example_env (utcnow_calls example_env) = 63839664000000000"
    by (simp add: example_env_def)
  have g1: "get_token_info example_tokens ''tok_1'' = Some example_token"
    "tk_is_valid example_token" "\<not> tk_expires_at example_token < 63839664000000000"
    by (simp_all add: get_token_info_def example_tokens_def example_token_def)
  have g2: "get_token_info example_tokens ''tok_none'' = None"
    by (simp add: get_token_info_def example_tokens_def)
  have g3: "get_token_info example_tokens ''tok_bad''
      = Some (example_token\<lparr>tk_token := ''tok_bad'', tk_is_valid := False\<rparr>)"
    by (simp add: get_token_info_def example_tokens_def)
  have g4: "get_token_info example_tokens ''tok_old''
      = Some (example_token\<lparr>tk_token := ''tok_old'', tk_expires_at := 63839663999999999\<rparr>)"
    "tk_is_valid (example_token\<lparr>tk_token := ''tok_old'', tk_expires_at := 63839663999999999\<rparr>)"
    by (simp_all add: get_token_info_def example_tokens_def example_token_def)
  have old: "tk_expires_at (example_token\<lparr>tk_token := ''tok_old'', tk_expires_at := 63839663999999999\<rparr>)
      < 63839664000000000"
    by simp
  have 1: "fst (validate_token example_tokens ''tok_1'' example_env) = Some example_token"
    using validate_token_lazy_expiry [of example_env example_tokens "''tok_1''"] g1
    unfolding Let_def now by blast
  have 2: "validate_token example_tokens ''tok_none'' example_env = (None, example_tokens, example_env)"
    using validate_token_lazy_expiry [of example_env example_tokens "''tok_none''"] g2
    by (simp add: Let_def)
  have 3: "validate_token example_tokens ''tok_bad'' example_env = (None, example_tokens, example_env)"
    using validate_token_lazy_expiry [of example_env example_tokens "''tok_bad''"] g3
    by (simp add: Let_def)
  have 4: "fst (validate_token example_tokens ''tok_old'' example_env) = None
     \<and> get_token_info (fst (snd (validate_token example_tokens ''tok_old'' example_env))) ''tok_old''
        = Some (example_token\<lparr>tk_token := ''tok_old'', tk_expires_at := 63839663999999999,
             tk_is_valid := False\<rparr>)"
    using validate_token_lazy_expiry [of example_env example_tokens "''tok_old''"] g4 old
    unfolding Let_def now by (elim conjE allE [where x = "example_token\<lparr>tk_token := ''tok_old'', tk_expires_at := 63839663999999999\<rparr>"]) simp
  from 1 2 3 4 g4(1) show ?thesis
    by (intro conjI) simp_all
qed

section \<open>Tokenizing a card\<close>

lemma tokenize_card_cases:
  "tokenize_card tokens card_number card_holder expiry_month expiry_year cvv e =
     (let token = fst (generate_token card_number e);
          e1 = snd (generate_token card_number e);
          now = utcnow_src e1 (utcnow_calls e1);
          e2 = e1\<lparr>utcnow_calls := Suc (utcnow_calls e1)\<rparr>;
          e3 = e1\<lparr>utcnow_calls := Suc (Suc (utcnow_calls e1))\<rparr>
      in if datetime_max < now + timedelta_hours 24 then (Inl OverflowError, tokens, e2)
         else (Inr \<lparr> ti_token = token, ti_last_four_digits = slice_last 4 card_number,
                     ti_card_type = identify_card_type card_number,
                     ti_expires_at = now + timedelta_hours 24 \<rparr>,
               dict_set tokens token
                 \<lparr> tk_token = token,
                   tk_card_number_hash = sha256_hexdigest e1 card_number,
                   tk_last_four_digits = slice_last 4 card_number,
                   tk_card_holder = card_holder,
                   tk_expiry_month = expiry_month,
                   tk_expiry_year = expiry_year,
                   tk_card_type = identify_card_type card_number,
                   tk_expires_at = now + timedelta_hours 24,
                   tk_created_at = utcnow_src e1 (Suc (utcnow_calls e1)),
                   tk_is_valid = True \<rparr>,
               e3))"
  by (simp add: tokenize_card_def utcnow_def Let_def split: prod.splits)

lemma tokenize_card_stored:
  assumes "fst (tokenize_card tokens card_number card_holder expiry_month expiry_year cvv e) = Inr info"
  shows "ti_last_four_digits info = slice_last 4 card_number
     \<and> ti_card_type info = identify_card_type card_number
     \<and> (\<exists>td. dict_get (fst (snd (tokenize_card tokens card_number card_holder expiry_month expiry_year cvv e)))
               (ti_token info) = Some td
          \<and> tk_token td = ti_token info
          \<and> tk_last_four_digits td = slice_last 4 card_number
          \<and> tk_card_type td = identify_card_type card_number
          \<and> tk_expires_at td = ti_expires_at info
          \<and> tk_is_valid td)"
  using assms
  by (auto simp add: tokenize_card_cases Let_def dict_get_set split: if_splits)




lemma tokenize_card_example_returns:
  "\<not> isl (fst (tokenize_card tokens card_number card_holder expiry_month expiry_year cvv example_env))"
  by (simp add: tokenize_card_cases Let_def generate_token_def token_hex_def utcnow_def
      example_env_def datetime_max_def timedelta_hours_def)

lemma slice_last_4_examples:
  "slice_last 4 ''4111 1111 1111 11 11'' = ''1 11''"
  "slice_last 4 ''4111111111111111'' = ''1111''"
  by (simp_all add: slice_last_def)



lemma validate_card_number_example:
  "validate_card_number ''4111 1111-1111 1111'' = Inr ''4111111111111111''"
  by (simp add: validate_card_number_def re_sub_delete_def space_or_dash_def is_space_def
      isdigit_def is_digit_char_def code_point_def Let_def)


text \<open>
  C7. Round trip. When \<open>tokenize_card\<close> returns for a card, the token's record is in
  the token store, and \<open>validate_token\<close> hands it out as long as the token has not
  expired. A payment of \<open>99.99\<close> processed with that token and that record is found by
  \<open>get_transaction\<close> under the returned transaction id, with amount \<open>99.99\<close>, the
  token that was used, and as \<open>card_info.last_four\<close> the \<open>last_four_digits\<close> that
  \<open>tokenize_card\<close> returned. This holds for every card input, valid or not.
\<close>

theorem tokenize_process_get_round_trip:
  assumes "fst (tokenize_card tokens card_number card_holder expiry_month expiry_year cvv e) = Inr info"
  shows "\<exists>td. get_token_info
             (fst (snd (tokenize_card tokens card_number card_holder expiry_month expiry_year cvv e)))
             (ti_token info) = Some td
     \<and> (\<forall>e2. \<not> tk_expires_at td < utcnow_src e2 (utcnow_calls e2) \<longrightarrow>
           fst (validate_token
                 (fst (snd (tokenize_card tokens card_number card_holder expiry_month expiry_year cvv e)))
                 (ti_token info) e2) = Some td)
     \<and> (let r = process_payment txs (ti_token info) (Finite lit_99_99) currency customer_id
                  description (Some td) e';
             t = fst r
         in get_transaction (fst (snd r)) (tx_transaction_id t) = Some (Txn t)
          \<and> tx_amount t = Finite lit_99_99 \<and> float_eq (tx_amount t) (Finite lit_99_99)
          \<and> tx_token t = ti_token info
          \<and> ci_last_four (tx_card_info t) = ti_last_four_digits info)"
proof -
  from tokenize_card_stored [OF assms]
  obtain td where lf: "ti_last_four_digits info = slice_last 4 card_number"
    and td: "dict_get (fst (snd (tokenize_card tokens card_number card_holder expiry_month expiry_year cvv e)))
               (ti_token info) = Some td"
      "tk_last_four_digits td = slice_last 4 card_number" "tk_is_valid td"
    by blast
  have v: "\<forall>e2. \<not> tk_expires_at td < utcnow_src e2 (utcnow_calls e2) \<longrightarrow>
           fst (validate_token
                 (fst (snd (tokenize_card tokens card_number card_holder expiry_month expiry_year cvv e)))
                 (ti_token info) e2) = Some td"
    using td by (simp add: validate_token_cases)
  have p: "let r = process_payment txs (ti_token info) (Finite lit_99_99) currency customer_id
                  description (Some td) e';
             t = fst r
         in get_transaction (fst (snd r)) (tx_transaction_id t) = Some (Txn t)
          \<and> tx_amount t = Finite lit_99_99 \<and> float_eq (tx_amount t) (Finite lit_99_99)
          \<and> tx_token t = ti_token info
          \<and> ci_last_four (tx_card_info t) = ti_last_four_digits info"
    using lf td(2)
    by (simp add: process_payment_unfold Let_def get_transaction_def dict_get_set)
  from td(1) v p show ?thesis
    by (auto simp: get_token_info_def)
qed

theorem tokenize_process_get_round_trip_witness:
  "let X = tokenize_card [] ''4111111111111111'' ''A. Holder'' 12 2030 ''123'' example_env;
       info = projr (fst X); tokens1 = fst (snd X); e1 = snd (snd X)
   in validate_card_number ''4111 1111-1111 1111'' = Inr ''4111111111111111''
    \<and> fst X = Inr info
    \<and> (\<exists>td. get_token_info tokens1 (ti_token info) = Some td
          \<and> fst (validate_token tokens1 (ti_token info) e1) = Some td
          \<and> (let r = process_payment [] (ti_token info) (Finite lit_99_99) ''USD'' ''cust_1'' None (Some td)
                       (snd (snd (validate_token tokens1 (ti_token info) e1)));
                  t = fst r
              in get_transaction (fst (snd r)) (tx_transaction_id t) = Some (Txn t)
               \<and> tx_amount t = Finite lit_99_99
               \<and> tx_token t = ti_token info
               \<and> ci_last_four (tx_card_info t) = ''1111''))"
proof -
  let ?X = "tokenize_card [] ''4111111111111111'' ''A. Holder'' 12 2030 ''123'' example_env"
  let ?info = "projr (fst ?X)"
  have "\<not> isl (fst ?X)"
    by (rule tokenize_card_example_returns)
  then have i: "fst ?X = Inr ?info"
    by (cases "fst ?X") simp_all
  from tokenize_card_stored [OF i]
  obtain td' where lf: "ti_last_four_digits ?info = ''1111''"
    and td': "dict_get (fst (snd ?X)) (ti_token ?info) = Some td'" "tk_expires_at td' = ti_expires_at ?info"
    by (auto simp: slice_last_4_examples)
  have ex: "ti_expires_at ?info = 63839750401000000"
    using i by (simp add: tokenize_card_cases Let_def generate_token_def token_hex_def utcnow_def
        example_env_def timedelta_hours_def split: if_splits)
  have clk: "utcnow_src (snd (snd ?X)) (utcnow_calls (snd (snd ?X))) = 63839664003000000"
    by (simp add: tokenize_card_cases Let_def generate_token_def token_hex_def utcnow_def
        example_env_def datetime_max_def timedelta_hours_def)
  from tokenize_process_get_round_trip [OF i, of "[]" "''USD''" "''cust_1''" None
      "snd (snd (validate_token (fst (snd ?X)) (ti_token ?info) (snd (snd ?X))))"]
  obtain td where td: "get_token_info (fst (snd ?X)) (ti_token ?info) = Some td"
    and v: "\<forall>e2. \<not> tk_expires_at td < utcnow_src e2 (utcnow_calls e2) \<longrightarrow>
           fst (validate_token (fst (snd ?X)) (ti_token ?info) e2) = Some td"
    and p: "let r = process_payment [] (ti_token ?info) (Finite lit_99_99) ''USD'' ''cust_1'' None (Some td)
                       (snd (snd (validate_token (fst (snd ?X)) (ti_token ?info) (snd (snd ?X)))));
                  t = fst r
              in get_transaction (fst (snd r)) (tx_transaction_id t) = Some (Txn t)
               \<and> tx_amount t = Finite lit_99_99 \<and> float_eq (tx_amount t) (Finite lit_99_99)
               \<and> tx_token t = ti_token ?info
               \<and> ci_last_four (tx_card_info t) = ti_last_four_digits ?info"
    by blast
  from td td' have "td = td'"
    by (simp add: get_token_info_def)
  with td'(2) ex clk have "\<not> tk_expires_at td < utcnow_src (snd (snd ?X)) (utcnow_calls (snd (snd ?X)))"
    by simp
  with v have v': "fst (validate_token (fst (snd ?X)) (ti_token ?info) (snd (snd ?X))) = Some td"
    by blast
  from p lf have p': "let r = process_payment [] (ti_token ?info) (Finite lit_99_99) ''USD'' ''cust_1'' None (Some td)
                       (snd (snd (validate_token (fst (snd ?X)) (ti_token ?info) (snd (snd ?X)))));
                  t = fst r
              in get_transaction (fst (snd r)) (tx_transaction_id t) = Some (Txn t)
               \<and> tx_amount t = Finite lit_99_99
               \<and> tx_token t = ti_token ?info
               \<and> ci_last_four (tx_card_info t) = ''1111''"
    by (simp add: Let_def)
  from i td v' p' validate_card_number_example show ?thesis
    unfolding Let_def by blast
qed

end
